theory Spec2Isabelle
  imports Complex_Main
begin

section \<open>Water-quality scoring, alerting and device tracking\<close>

text \<open>
  A shallow embedding of the scoring method of the WaterQuality model
  (\<^verbatim>\<open>calculateQualityScore\<close>, \<^verbatim>\<open>determineStatus\<close>), of the ESP32 ingestion route
  (\<^verbatim>\<open>router.post('/data')\<close>, \<^verbatim>\<open>checkForAlerts\<close>, \<^verbatim>\<open>determineSensorStatus\<close>), of the
  two review routes, of the ESP32Device methods and of the device status job of the cron
  service.

  JavaScript numbers are modelled as exact rationals: the rounding error of IEEE-754
  doubles is not part of the model. Dates are milliseconds since the epoch, as integers.
  A Number path that the alerting or the sensor scoring reads is a \<open>jsnumber\<close>: it may be
  \<^verbatim>\<open>undefined\<close> or \<^verbatim>\<open>null\<close>. A path that is only tested for truthiness is an \<open>option\<close>,
  \<open>None\<close> standing for both. The store is outside the code: a query or a save may be
  rejected from outside, with the message given as an argument, and a rejected one throws
  as in the source. The validation the library runs inside \<^verbatim>\<open>save()\<close>, before the
  \<^verbatim>\<open>pre('save')\<close> middleware, follows the validators of the schema.
\<close>

subsection \<open>Numbers\<close>

datatype jsnumber = Undefined | Null | Num rat

text \<open>
  The number a relational operator compares: \<^verbatim>\<open>null\<close> counts as 0, \<^verbatim>\<open>undefined\<close> as
  \<^verbatim>\<open>NaN\<close> (here \<open>None\<close>), and every comparison with \<^verbatim>\<open>NaN\<close> is false.
\<close>

fun toNumber :: "jsnumber \<Rightarrow> rat option" where
  "toNumber Undefined = None"
| "toNumber Null = Some 0"
| "toNumber (Num x) = Some x"

definition js_lt :: "jsnumber \<Rightarrow> jsnumber \<Rightarrow> bool" where
  "js_lt a b =
     (case toNumber a of
        None \<Rightarrow> False
      | Some x \<Rightarrow> (case toNumber b of None \<Rightarrow> False | Some y \<Rightarrow> x < y))"

subsection \<open>Documents\<close>

text \<open>One entry of \<^verbatim>\<open>sensorData\<close>: \<^verbatim>\<open>{ value, unit, status }\<close>.\<close>

record sensor_reading =
  svalue :: jsnumber
  unit :: string
  sstatus :: "string option"

text \<open>A rated aspect of a review: \<^verbatim>\<open>{ rating, description }\<close>.\<close>

record rated =
  rating :: "rat option"
  description :: string

text \<open>\<^verbatim>\<open>reviewData\<close>: \<^verbatim>\<open>overallRating\<close> is a plain Number, the three aspects are objects.\<close>

record review_data =
  overallRating :: "rat option"
  taste :: rated
  clarity :: rated
  odor :: rated
  healthEffects :: "string list"
  additionalComments :: string

datatype assessment_status = Excellent | Good | Fair | Poor | Critical

text \<open>
  The WaterQuality document, with the paths the scoring and the alerting read or write.
  \<^verbatim>\<open>sensorData\<close> is an object whose keys are kept in insertion order.
\<close>

record water_quality =
  source :: string
  wqDeviceId :: "string option"
  wqUserId :: "string option"
  timestamp :: int
  sensorData :: "(string \<times> sensor_reading) list option"
  reviewData :: "review_data option"
  qualityScore :: jsnumber
  assessmentStatus :: "assessment_status option"

subsection \<open>The quality score\<close>

text \<open>\<^verbatim>\<open>Math.round\<close>: the nearest integer, a half rounded up.\<close>

definition math_round :: "rat \<Rightarrow> int" where
  "math_round x = \<lfloor>x + 1 / 2\<rfloor>"

definition sensorWeights :: "(string \<times> rat) list" where
  "sensorWeights =
     [(''turbidity'', 45 / 100), (''tds'', 20 / 100),
      (''temperature'', 15 / 100), (''dissolvedOxygen'', 20 / 100)]"

definition reviewWeights :: "(string \<times> rat) list" where
  "reviewWeights =
     [(''overallRating'', 4 / 10), (''taste'', 2 / 10),
      (''clarity'', 2 / 10), (''odor'', 2 / 10)]"

text \<open>The piecewise sub-score of one sensor parameter (\<^verbatim>\<open>paramScore\<close> starts at 100).\<close>

definition paramScore :: "string \<Rightarrow> rat \<Rightarrow> rat" where
  "paramScore param v =
     (if param = ''turbidity'' then
        (if v < 5 then 100 else if v < 10 then 80 else if v < 20 then 60 else 30)
      else if param = ''tds'' then
        (if v \<ge> 150 \<and> v \<le> 500 then 100
         else if v \<ge> 100 \<and> v \<le> 750 then 80
         else if v \<ge> 50 \<and> v \<le> 1000 then 60 else 40)
      else if param = ''temperature'' then
        (if v \<ge> 10 \<and> v \<le> 25 then 100
         else if v \<ge> 5 \<and> v \<le> 30 then 80 else 60)
      else if param = ''dissolvedOxygen'' then
        (if v > 6 then 100 else if v > 4 then 80 else if v > 2 then 60 else 30)
      else 100)"

text \<open>
  One round of the \<^verbatim>\<open>forEach\<close> over the sensor weights: the pair is
  \<^verbatim>\<open>(score, totalWeight)\<close>. A parameter counts when its entry exists and its value is
  not \<^verbatim>\<open>undefined\<close>; a value \<^verbatim>\<open>null\<close> counts, and compares as 0.
\<close>

fun sensorStep ::
  "(string \<times> sensor_reading) list \<Rightarrow> rat \<times> rat \<Rightarrow> string \<times> rat \<Rightarrow> rat \<times> rat" where
  "sensorStep sd (score, totalWeight) (param, weight) =
     (case map_of sd param of
        None \<Rightarrow> (score, totalWeight)
      | Some r \<Rightarrow>
          (case svalue r of
             Undefined \<Rightarrow> (score, totalWeight)
           | Null \<Rightarrow> (score + paramScore param 0 * weight, totalWeight + weight)
           | Num v \<Rightarrow> (score + paramScore param v * weight, totalWeight + weight)))"

text \<open>
  \<^verbatim>\<open>this.reviewData[param]\<close>: a Number for \<^verbatim>\<open>overallRating\<close>, an object for the three
  aspects, \<^verbatim>\<open>undefined\<close> for an unset Number.
\<close>

datatype review_field = Missing | NumberField rat | RatedField rated

definition reviewField :: "review_data \<Rightarrow> string \<Rightarrow> review_field" where
  "reviewField rd param =
     (if param = ''overallRating'' then
        (case overallRating rd of None \<Rightarrow> Missing | Some n \<Rightarrow> NumberField n)
      else if param = ''taste'' then RatedField (taste rd)
      else if param = ''clarity'' then RatedField (clarity rd)
      else if param = ''odor'' then RatedField (odor rd)
      else Missing)"

text \<open>
  \<^verbatim>\<open>x && x.rating\<close>: the rating when \<^verbatim>\<open>x\<close> is truthy and its \<^verbatim>\<open>rating\<close> property is
  truthy. A Number has no \<^verbatim>\<open>rating\<close> property; 0 and \<^verbatim>\<open>undefined\<close> are falsy.
\<close>

fun truthyRating :: "review_field \<Rightarrow> rat option" where
  "truthyRating Missing = None"
| "truthyRating (NumberField n) = None"
| "truthyRating (RatedField r) =
     (case rating r of None \<Rightarrow> None | Some x \<Rightarrow> if x = 0 then None else Some x)"

fun reviewStep :: "review_data \<Rightarrow> rat \<times> rat \<Rightarrow> string \<times> rat \<Rightarrow> rat \<times> rat" where
  "reviewStep rd (score, totalWeight) (param, weight) =
     (case truthyRating (reviewField rd param) of
        None \<Rightarrow> (score, totalWeight)
      | Some x \<Rightarrow> (score + (x / 5) * 100 * weight, totalWeight + weight))"

definition scoreTotals :: "water_quality \<Rightarrow> rat \<times> rat" where
  "scoreTotals d =
     (if source d = ''esp32'' \<and> sensorData d \<noteq> None then
        foldl (sensorStep (the (sensorData d))) (0, 0) sensorWeights
      else if source d = ''user_review'' \<and> reviewData d \<noteq> None then
        foldl (reviewStep (the (reviewData d))) (0, 0) reviewWeights
      else (0, 0))"

definition calculateQualityScore :: "water_quality \<Rightarrow> int" where
  "calculateQualityScore d =
     (case scoreTotals d of
        (score, totalWeight) \<Rightarrow>
          if totalWeight > 0 then math_round (score / totalWeight) else 50)"

definition determineStatus :: "int \<Rightarrow> assessment_status" where
  "determineStatus q =
     (if q \<ge> 80 then Excellent
      else if q \<ge> 60 then Good
      else if q \<ge> 40 then Fair
      else if q \<ge> 20 then Poor
      else Critical)"

text \<open>
  The pre-save middleware: when \<^verbatim>\<open>sensorData\<close> or \<^verbatim>\<open>reviewData\<close> is modified, the score
  and the status are recomputed.
\<close>

definition wq_pre_save :: "bool \<Rightarrow> water_quality \<Rightarrow> water_quality" where
  "wq_pre_save modified d =
     (if modified then
        d\<lparr>qualityScore := Num (of_int (calculateQualityScore d)),
          assessmentStatus := Some (determineStatus (calculateQualityScore d))\<rparr>
      else d)"

text \<open>
  The number the sensor scoring reads for a parameter: none when the reading has no entry
  for it or the value of the entry is \<^verbatim>\<open>undefined\<close>, 0 for \<^verbatim>\<open>null\<close>.
\<close>

definition sensorValue :: "(string \<times> sensor_reading) list \<Rightarrow> string \<Rightarrow> rat option" where
  "sensorValue sd param =
     (case map_of sd param of None \<Rightarrow> None | Some r \<Rightarrow> toNumber (svalue r))"

text \<open>
  The sub-scores that take part in the sensor score, each with its weight, in the order
  of the weight table.
\<close>

definition presentSubScores :: "(string \<times> sensor_reading) list \<Rightarrow> (rat \<times> rat) list" where
  "presentSubScores sd =
     List.map_filter
       (\<lambda>(param, weight).
          case sensorValue sd param of
            None \<Rightarrow> None
          | Some v \<Rightarrow> Some (weight, paramScore param v))
       sensorWeights"

text \<open>The validators of the schema on a rating: \<^verbatim>\<open>min: 1, max: 5\<close>.\<close>

definition ratingInRange :: "rat option \<Rightarrow> bool" where
  "ratingInRange r = (case r of None \<Rightarrow> True | Some x \<Rightarrow> 1 \<le> x \<and> x \<le> 5)"


text \<open>
  The validators of the schema on the paths of the model, as the library runs them inside
  \<^verbatim>\<open>save()\<close>: the paths that fail. \<^verbatim>\<open>source\<close> is required and of its enum; \<^verbatim>\<open>deviceId\<close>
  is required for an esp32 document, \<^verbatim>\<open>userId\<close> and \<^verbatim>\<open>reviewData.overallRating\<close> for a
  user review; every rating is within 1 and 5; a sensor status and a health effect are
  of their enums; \<^verbatim>\<open>qualityScore\<close> is required and within 0 and 100;
  \<^verbatim>\<open>assessment.status\<close> is required. No path has a default that would fill
  \<^verbatim>\<open>qualityScore\<close> or \<^verbatim>\<open>assessment.status\<close>. The location, which every route sets, is
  left out.
\<close>

definition sourceEnum :: "string list" where
  "sourceEnum = [''esp32'', ''user_review'', ''manual_entry'']"

definition sensorStatusEnum :: "string list" where
  "sensorStatusEnum = [''normal'', ''high'', ''low'', ''critical'']"

definition healthEffectsEnum :: "string list" where
  "healthEffectsEnum =
     [''none'', ''stomach_discomfort'', ''skin_irritation'', ''hair_loss'', ''metallic_taste'',
      ''other'']"

definition sensorStatusValid :: "string \<times> sensor_reading \<Rightarrow> bool" where
  "sensorStatusValid e =
     (case sstatus (snd e) of None \<Rightarrow> True | Some s \<Rightarrow> s \<in> set sensorStatusEnum)"

definition wq_validate :: "water_quality \<Rightarrow> string list" where
  "wq_validate d =
     (if source d \<in> set sourceEnum then [] else [''source'']) @
     (if source d = ''esp32'' \<and> (wqDeviceId d = None \<or> wqDeviceId d = Some [])
      then [''deviceId''] else []) @
     (if source d = ''user_review'' \<and> wqUserId d = None then [''userId''] else []) @
     (case sensorData d of
        None \<Rightarrow> []
      | Some sd \<Rightarrow> if list_all sensorStatusValid sd then [] else [''sensorData.status'']) @
     (case reviewData d of
        None \<Rightarrow> if source d = ''user_review'' then [''reviewData.overallRating''] else []
      | Some rd \<Rightarrow>
          (if (source d = ''user_review'' \<and> overallRating rd = None) \<or>
              \<not> ratingInRange (overallRating rd)
           then [''reviewData.overallRating''] else []) @
          (if ratingInRange (rating (taste rd)) then [] else [''reviewData.taste.rating'']) @
          (if ratingInRange (rating (clarity rd)) then [] else [''reviewData.clarity.rating'']) @
          (if ratingInRange (rating (odor rd)) then [] else [''reviewData.odor.rating'']) @
          (if list_all (\<lambda>h. h \<in> set healthEffectsEnum) (healthEffects rd) then []
           else [''reviewData.healthEffects''])) @
     (case qualityScore d of
        Num q \<Rightarrow> if 0 \<le> q \<and> q \<le> 100 then [] else [''qualityScore'']
      | _ \<Rightarrow> [''qualityScore'']) @
     (if assessmentStatus d = None then [''assessment.status''] else [])"

datatype error = TypeError | SaveFailed string | ValidationError "string list"

text \<open>
  \<^verbatim>\<open>save()\<close> of a WaterQuality document. A rejection given from outside stands for any
  failure of the save other than the validators of the schema; with one the save rejects,
  and the error carries its message. Otherwise the library validates the document and
  rejects when a validator fails; only then the \<^verbatim>\<open>pre('save')\<close> middleware runs and the
  document is stored. When a failure from outside and a failing validator meet, the save
  rejects in either order; the model reports the failure from outside. \<open>modified\<close> tells
  whether the document counts \<^verbatim>\<open>sensorData\<close> or \<^verbatim>\<open>reviewData\<close> as modified.
\<close>

definition wq_save :: "string option \<Rightarrow> bool \<Rightarrow> water_quality \<Rightarrow> error + water_quality" where
  "wq_save rejection modified d =
     (case rejection of
        Some m \<Rightarrow> Inl (SaveFailed m)
      | None \<Rightarrow>
          if wq_validate d = [] then Inr (wq_pre_save modified d)
          else Inl (ValidationError (wq_validate d)))"


text \<open>The total weight of a list of weighted scores, and their average under the weights
  divided by that total (so that the weights used sum to 1).\<close>

definition totalWeightOf :: "(rat \<times> rat) list \<Rightarrow> rat" where
  "totalWeightOf P = sum_list (map fst P)"

definition weightedAverage :: "(rat \<times> rat) list \<Rightarrow> rat" where
  "weightedAverage P = sum_list (map (\<lambda>(w, s). (w / totalWeightOf P) * s) P)"

text \<open>
  The review score as the specification words it: the overall rating takes part with
  weight 0.40 whenever it is present, each aspect rating with weight 0.20.
\<close>

definition spec_presentRatings :: "review_data \<Rightarrow> (rat \<times> rat) list" where
  "spec_presentRatings rd =
     List.map_filter
       (\<lambda>(r, weight). case r of None \<Rightarrow> None | Some x \<Rightarrow> Some (weight, (x / 5) * 100))
       [(overallRating rd, 4 / 10), (rating (taste rd), 2 / 10),
        (rating (clarity rd), 2 / 10), (rating (odor rd), 2 / 10)]"

definition spec_reviewScore :: "review_data \<Rightarrow> int" where
  "spec_reviewScore rd =
     (if spec_presentRatings rd = [] then 50
      else math_round (weightedAverage (spec_presentRatings rd)))"

subsection \<open>The ESP32 device\<close>

datatype device_status = Online | Offline | Maintenance | Error

text \<open>The thresholds of one parameter; a bound that is not configured is \<^verbatim>\<open>undefined\<close>.\<close>

record thresholds =
  tmin :: jsnumber
  tmax :: jsnumber
  criticalMin :: jsnumber
  criticalMax :: jsnumber

record health =
  batteryLevel :: rat
  signalStrength :: rat
  healthTemperature :: rat
  errorCount :: nat

record statistics =
  totalReadings :: nat
  successfulReadings :: nat
  failedReadings :: nat
  lastReadingTime :: "int option"
  averageQualityScore :: rat

text \<open>
  The device document, with the paths the ingestion route, the device methods and the
  status job read or write. The location, the sensor calibration settings, the
  configuration, the metadata and the access control are left out: none of the modelled
  code reads them.
\<close>

record device =
  deviceId :: string
  name :: string
  status :: device_status
  lastSeen :: int
  deviceThresholds :: "(string \<times> thresholds) list"
  health :: health
  statistics :: statistics

text \<open>The defaults of the schema.\<close>

definition defaultThresholds :: "(string \<times> thresholds) list" where
  "defaultThresholds =
     [(''turbidity'',
         \<lparr>tmin = Undefined, tmax = Num 5, criticalMin = Undefined, criticalMax = Num 20\<rparr>),
      (''temperature'',
         \<lparr>tmin = Num 10, tmax = Num 25, criticalMin = Num 5, criticalMax = Num 35\<rparr>),
      (''tds'',
         \<lparr>tmin = Num 150, tmax = Num 500, criticalMin = Num 50, criticalMax = Num 1000\<rparr>)]"

definition defaultHealth :: health where
  "defaultHealth =
     \<lparr>batteryLevel = 100, signalStrength = 100, healthTemperature = 25, errorCount = 0\<rparr>"

definition defaultStatistics :: statistics where
  "defaultStatistics =
     \<lparr>totalReadings = 0, successfulReadings = 0, failedReadings = 0,
      lastReadingTime = None, averageQualityScore = 0\<rparr>"

text \<open>The device the route creates for an unknown \<^verbatim>\<open>deviceId\<close>.\<close>

definition newDevice :: "string \<Rightarrow> int \<Rightarrow> device" where
  "newDevice did now =
     \<lparr>deviceId = did, name = ''ESP32-'' @ did, status = Online, lastSeen = now,
      deviceThresholds = defaultThresholds, health = defaultHealth,
      statistics = defaultStatistics\<rparr>"

text \<open>
  The pre-save middleware of the device: \<^verbatim>\<open>lastSeen\<close> is set to the current time when
  the status was modified and is now online.
\<close>

definition device_pre_save :: "int \<Rightarrow> bool \<Rightarrow> device \<Rightarrow> device" where
  "device_pre_save now statusModified d =
     (if statusModified \<and> status d = Online then d\<lparr>lastSeen := now\<rparr> else d)"

text \<open>\<^verbatim>\<open>updateStatus\<close> and \<^verbatim>\<open>recordReading\<close>, up to their final \<^verbatim>\<open>this.save()\<close>.\<close>

definition updateStatus :: "int \<Rightarrow> device_status \<Rightarrow> device \<Rightarrow> device" where
  "updateStatus now st d =
     (let d1 = d\<lparr>status := st\<rparr>
      in if st = Online then d1\<lparr>lastSeen := now\<rparr> else d1)"

definition recordReading :: "int \<Rightarrow> bool \<Rightarrow> device \<Rightarrow> device" where
  "recordReading now successful d =
     (let s0 = statistics d;
          s1 = s0\<lparr>totalReadings := totalReadings s0 + 1\<rparr>;
          s2 = (if successful then s1\<lparr>successfulReadings := successfulReadings s1 + 1\<rparr>
                else s1\<lparr>failedReadings := failedReadings s1 + 1\<rparr>)
      in d\<lparr>statistics := s2\<lparr>lastReadingTime := Some now\<rparr>\<rparr>)"

subsection \<open>Alerts\<close>

text \<open>
  An alert as \<^verbatim>\<open>checkForAlerts\<close> builds it. The message is kept as the template it is
  made from; the text interpolates the sensor key, the value and the unit.
\<close>

datatype alert_message =
  CriticallyLow | CriticallyHigh | BelowNormal | AboveNormal
  | OverallCriticallyPoor | OverallBelowNormal

record alert =
  atype :: string
  sensor :: string
  message :: alert_message
  avalue :: jsnumber
  threshold :: jsnumber

text \<open>
  \<^verbatim>\<open>bound !== undefined && value < bound\<close> and its mirror image
  \<^verbatim>\<open>bound !== undefined && value > bound\<close>.
\<close>

definition belowBound :: "jsnumber \<Rightarrow> jsnumber \<Rightarrow> bool" where
  "belowBound v b = (b \<noteq> Undefined \<and> js_lt v b)"

definition aboveBound :: "jsnumber \<Rightarrow> jsnumber \<Rightarrow> bool" where
  "aboveBound v b = (b \<noteq> Undefined \<and> js_lt b v)"

definition determineSensorStatus :: "string \<Rightarrow> jsnumber \<Rightarrow> thresholds option \<Rightarrow> string" where
  "determineSensorStatus sensorType v th =
     (case th of
        None \<Rightarrow> ''normal''
      | Some t \<Rightarrow>
          if belowBound v (criticalMin t) then ''critical''
          else if aboveBound v (criticalMax t) then ''critical''
          else if belowBound v (tmin t) then ''low''
          else if aboveBound v (tmax t) then ''high''
          else ''normal'')"

text \<open>
  The body of the \<^verbatim>\<open>forEach\<close> of \<^verbatim>\<open>checkForAlerts\<close> for one sensor key: the alerts it
  pushes. The \<^verbatim>\<open>value\<close> and \<^verbatim>\<open>threshold\<close> of an alert are the value read and the bound
  it was compared with.
\<close>

definition thresholdAlerts :: "string \<Rightarrow> sensor_reading \<Rightarrow> thresholds option \<Rightarrow> alert list" where
  "thresholdAlerts sensorKey sdata th =
     (case th of
        None \<Rightarrow> []
      | Some t \<Rightarrow>
          if belowBound (svalue sdata) (criticalMin t) then
            [\<lparr>atype = ''critical'', sensor = sensorKey, message = CriticallyLow,
              avalue = svalue sdata, threshold = criticalMin t\<rparr>]
          else if aboveBound (svalue sdata) (criticalMax t) then
            [\<lparr>atype = ''critical'', sensor = sensorKey, message = CriticallyHigh,
              avalue = svalue sdata, threshold = criticalMax t\<rparr>]
          else if belowBound (svalue sdata) (tmin t) then
            [\<lparr>atype = ''warning'', sensor = sensorKey, message = BelowNormal,
              avalue = svalue sdata, threshold = tmin t\<rparr>]
          else if aboveBound (svalue sdata) (tmax t) then
            [\<lparr>atype = ''warning'', sensor = sensorKey, message = AboveNormal,
              avalue = svalue sdata, threshold = tmax t\<rparr>]
          else [])"

definition sensorAlerts :: "(string \<times> sensor_reading) list \<Rightarrow> device \<Rightarrow> alert list" where
  "sensorAlerts sd dev =
     concat (map (\<lambda>(sensorKey, sdata).
                    thresholdAlerts sensorKey sdata (map_of (deviceThresholds dev) sensorKey)) sd)"

text \<open>The check of the overall score: \<^verbatim>\<open>qualityScore < 40\<close>, else \<^verbatim>\<open>qualityScore < 60\<close>.\<close>

definition overallAlerts :: "jsnumber \<Rightarrow> alert list" where
  "overallAlerts q =
     (if js_lt q (Num 40) then
        [\<lparr>atype = ''critical'', sensor = ''overall'', message = OverallCriticallyPoor,
          avalue = q, threshold = Num 40\<rparr>]
      else if js_lt q (Num 60) then
        [\<lparr>atype = ''warning'', sensor = ''overall'', message = OverallBelowNormal,
          avalue = q, threshold = Num 60\<rparr>]
      else [])"

text \<open>\<^verbatim>\<open>Object.keys\<close> of an \<^verbatim>\<open>undefined\<close> \<^verbatim>\<open>sensorData\<close> throws.\<close>

definition checkForAlerts :: "water_quality \<Rightarrow> device \<Rightarrow> error + alert list" where
  "checkForAlerts waterQualityData dev =
     (case sensorData waterQualityData of
        None \<Rightarrow> Inl TypeError
      | Some sd \<Rightarrow> Inr (sensorAlerts sd dev @ overallAlerts (qualityScore waterQualityData)))"

subsection \<open>The ingestion route\<close>

text \<open>
  The body of the request, as it reaches the handler after the \<^verbatim>\<open>validateSensorData\<close>
  middleware (which is not among the sources): \<^verbatim>\<open>sensors\<close> is an object. A sensor entry
  that is falsy is \<open>None\<close>; a value that is \<^verbatim>\<open>undefined\<close> or \<^verbatim>\<open>null\<close> is \<open>None\<close>. The
  location of the request is left out: it is copied into the documents and read by
  nothing that is modelled.
\<close>

record sensor_input =
  inValue :: "rat option"
  inUnit :: "string option"

record data_request =
  reqDeviceId :: string
  reqTimestamp :: "int option"
  sensors :: "(string \<times> sensor_input option) list"
  reqBatteryLevel :: "rat option"
  reqSignalStrength :: "rat option"
  reqDeviceTemperature :: "rat option"

text \<open>
  What the route takes from outside: the clock (one reading of it for the whole request)
  and, for each of the two saves, the message of the error it is rejected with from
  outside, if it is. The validators of the device schema are not modelled.
\<close>

record env =
  envNow :: int
  wqSaveError :: "string option"
  deviceSaveError :: "string option"

record db =
  devices :: "device list"
  readings :: "water_quality list"

datatype response =
  Success jsnumber "alert list option"
  | BadRequest string
  | ServerError error

datatype event =
  Esp32Data string int "(string \<times> sensor_reading) list" jsnumber
  | WaterQualityAlert string "alert list" int

text \<open>\<^verbatim>\<open>a || b\<close> on a number and on a string.\<close>

definition orElse :: "rat option \<Rightarrow> rat \<Rightarrow> rat" where
  "orElse a b = (case a of None \<Rightarrow> b | Some v \<Rightarrow> if v = 0 then b else v)"

definition getDefaultUnit :: "string \<Rightarrow> string" where
  "getDefaultUnit sensorType =
     (if sensorType = ''ph'' then ''pH''
      else if sensorType = ''turbidity'' then ''NTU''
      else if sensorType = ''temperature'' then [CHR 0xC2, CHR 0xB0, CHR ''C'']
      else if sensorType = ''tds'' then ''ppm''
      else if sensorType = ''conductivity'' then [CHR 0xC2, CHR 0xB5] @ ''S/cm''
      else if sensorType = ''dissolvedOxygen'' then ''mg/L''
      else [])"

text \<open>
  The \<^verbatim>\<open>forEach\<close> over the keys of \<^verbatim>\<open>sensors\<close>: the entries of \<^verbatim>\<open>sensorData\<close>, in key
  order. The keys of an object are distinct, so each entry is written once.
\<close>

definition processSensors ::
  "device \<Rightarrow> (string \<times> sensor_input option) list \<Rightarrow> (string \<times> sensor_reading) list" where
  "processSensors dev ss =
     List.map_filter
       (\<lambda>(sensorKey, s).
          case s of
            None \<Rightarrow> None
          | Some i \<Rightarrow>
              (case inValue i of
                 None \<Rightarrow> None
               | Some v \<Rightarrow>
                   Some (sensorKey,
                     \<lparr>svalue = Num v,
                      unit = (case inUnit i of
                                None \<Rightarrow> getDefaultUnit sensorKey
                              | Some u \<Rightarrow> if u = [] then getDefaultUnit sensorKey else u),
                      sstatus = Some (determineSensorStatus sensorKey (Num v)
                                        (map_of (deviceThresholds dev) sensorKey))\<rparr>)))
       ss"

text \<open>\<^verbatim>\<open>findOne({ deviceId })\<close> and the write of a saved device into the collection.\<close>

definition findOne :: "string \<Rightarrow> device list \<Rightarrow> device option" where
  "findOne did ds = find (\<lambda>d. deviceId d = did) ds"

definition saveDevice :: "device \<Rightarrow> device list \<Rightarrow> device list" where
  "saveDevice d ds =
     (if deviceId d \<in> set (map deviceId ds)
      then map (\<lambda>x. if deviceId x = deviceId d then d else x) ds
      else ds @ [d])"

text \<open>
  The steps of \<^verbatim>\<open>router.post('/data')\<close>, named after the comments of the route: find or
  create the device; update its status and health; create the water quality record.
\<close>

definition resolveDevice :: "env \<Rightarrow> data_request \<Rightarrow> db \<Rightarrow> device" where
  "resolveDevice e req st =
     (case findOne (reqDeviceId req) (devices st) of
        None \<Rightarrow> newDevice (reqDeviceId req) (envNow e)
      | Some d \<Rightarrow> d)"

definition touchDevice :: "env \<Rightarrow> data_request \<Rightarrow> device \<Rightarrow> device" where
  "touchDevice e req d =
     (let h0 = health d
      in d\<lparr>status := Online, lastSeen := envNow e,
           health := h0\<lparr>batteryLevel := orElse (reqBatteryLevel req) (batteryLevel h0),
                        signalStrength := orElse (reqSignalStrength req) (signalStrength h0),
                        healthTemperature :=
                          orElse (reqDeviceTemperature req) (healthTemperature h0)\<rparr>\<rparr>)"

definition buildReading ::
  "env \<Rightarrow> data_request \<Rightarrow> (string \<times> sensor_reading) list \<Rightarrow> water_quality" where
  "buildReading e req sd =
     \<lparr>source = ''esp32'', wqDeviceId = Some (reqDeviceId req), wqUserId = None,
      timestamp = (case reqTimestamp req of
                     None \<Rightarrow> envNow e
                   | Some t \<Rightarrow> if t = 0 then envNow e else t),
      sensorData = Some sd, reviewData = None, qualityScore = Undefined,
      assessmentStatus = None\<rparr>"

text \<open>Whether the device document counts its status as modified when it is saved: it is
  new, or its stored status was not online.\<close>

definition statusModified :: "data_request \<Rightarrow> db \<Rightarrow> bool" where
  "statusModified req st =
     (case findOne (reqDeviceId req) (devices st) of
        None \<Rightarrow> True
      | Some d \<Rightarrow> status d \<noteq> Online)"

text \<open>
  The part of the route after both saves: the events emitted, the alert check and the
  response.
\<close>

definition respond ::
  "data_request \<Rightarrow> water_quality \<Rightarrow> device \<Rightarrow> db \<Rightarrow> response \<times> db \<times> event list" where
  "respond req wq dev st =
     (let ev = Esp32Data (reqDeviceId req) (timestamp wq)
                 (case sensorData wq of None \<Rightarrow> [] | Some sd \<Rightarrow> sd) (qualityScore wq)
      in case checkForAlerts wq dev of
           Inl err \<Rightarrow> (ServerError err, st, [ev])
         | Inr alerts \<Rightarrow>
             if alerts \<noteq> [] then
               (Success (qualityScore wq) (Some alerts), st,
                [ev, WaterQualityAlert (reqDeviceId req) alerts (timestamp wq)])
             else (Success (qualityScore wq) None, st, [ev]))"

text \<open>
  \<^verbatim>\<open>router.post('/data')\<close>: the response, the database afterwards and the events emitted.
  A save that rejects throws to the \<^verbatim>\<open>catch\<close> of the route, which answers 500 with the
  message of the error. The record the route builds sets \<^verbatim>\<open>sensorData\<close>, so the document
  counts it as modified. The weather lookup is left out: its result is stored in the
  document and read by nothing that is modelled, and its failure is caught inside the
  lookup.
\<close>

definition post_data :: "env \<Rightarrow> data_request \<Rightarrow> db \<Rightarrow> response \<times> db \<times> event list" where
  "post_data e req st =
     (let dev = touchDevice e req (resolveDevice e req st);
          sd = processSensors dev (sensors req)
      in if sd = [] then (BadRequest ''No valid sensor data provided'', st, [])
         else
           (case wq_save (wqSaveError e) True (buildReading e req sd) of
              Inl err \<Rightarrow> (ServerError err, st, [])
            | Inr wq \<Rightarrow>
                (let st1 = st\<lparr>readings := readings st @ [wq]\<rparr>
                 in (case deviceSaveError e of
                       Some m \<Rightarrow> (ServerError (SaveFailed m), st1, [])
                     | None \<Rightarrow>
                         (let dev2 = device_pre_save (envNow e) (statusModified req st)
                                       (recordReading (envNow e) True dev)
                          in respond req wq dev2
                               (st1\<lparr>devices := saveDevice dev2 (devices st1)\<rparr>))))))"

subsection \<open>The review route\<close>








subsection \<open>The device status job\<close>

datatype log_entry = Info string | ErrorLog string string

definition timeout :: int where
  "timeout = 10 * 60 * 1000"

text \<open>
  The \<^verbatim>\<open>for\<close> loop over the devices found. \<open>saveError\<close> tells, for a device id, the
  message of the error its \<^verbatim>\<open>save()\<close> rejects with, if it does. The result is the error
  that left the loop (if one did), the collection afterwards and the lines logged.
  A rejected save throws out of the loop: the device is not written and the devices after
  it are not visited.
\<close>

fun statusCheckLoop ::
  "int \<Rightarrow> (string \<Rightarrow> string option) \<Rightarrow> device list \<Rightarrow>
     string option \<times> device list \<times> log_entry list" where
  "statusCheckLoop now saveError [] = (None, [], [])"
| "statusCheckLoop now saveError (d # ds) =
     (if status d = Online \<and> now - lastSeen d > timeout then
        (case saveError (deviceId d) of
           Some m \<Rightarrow> (Some m, d # ds, [])
         | None \<Rightarrow>
             (case statusCheckLoop now saveError ds of
                (r, ds', logs) \<Rightarrow>
                  (r, d\<lparr>status := Offline\<rparr> # ds',
                   Info (''Device '' @ deviceId d @ '' marked as offline'') # logs)))
      else
        (case statusCheckLoop now saveError ds of
           (r, ds', logs) \<Rightarrow> (r, d # ds', logs)))"

text \<open>
  One run of the job: the \<^verbatim>\<open>try\<close> block around the query and the loop, and its
  \<^verbatim>\<open>catch\<close>, which logs the error. \<open>findError\<close> is the error of the query, if it fails.
\<close>

definition deviceStatusCheck ::
  "int \<Rightarrow> string option \<Rightarrow> (string \<Rightarrow> string option) \<Rightarrow> device list \<Rightarrow>
     device list \<times> log_entry list" where
  "deviceStatusCheck now findError saveError store =
     (case findError of
        Some m \<Rightarrow>
          (store, [Info ''Running device status check...'',
                   ErrorLog ''Device status check error:'' m])
      | None \<Rightarrow>
          (case statusCheckLoop now saveError store of
             (r, store', logs) \<Rightarrow>
               (store',
                Info ''Running device status check...'' # logs @
                  (case r of
                     None \<Rightarrow> []
                   | Some m \<Rightarrow> [ErrorLog ''Device status check error:'' m]))))"

text \<open>What the job does to one device when its save succeeds.\<close>

definition sweepOne :: "int \<Rightarrow> device \<Rightarrow> device" where
  "sweepOne now d =
     (if status d = Online \<and> now - lastSeen d > timeout then d\<lparr>status := Offline\<rparr> else d)"

subsection \<open>Notions used to state the properties\<close>

text \<open>A device the status job would mark offline: online and last seen more than the
  timeout ago. The line the job logs for it. An alert of the overall check.\<close>

definition isStale :: "int \<Rightarrow> device \<Rightarrow> bool" where
  "isStale now d = (status d = Online \<and> now - lastSeen d > timeout)"

definition offlineLog :: "device \<Rightarrow> log_entry" where
  "offlineLog d = Info (''Device '' @ deviceId d @ '' marked as offline'')"

definition isOverall :: "alert \<Rightarrow> bool" where
  "isOverall a = (message a = OverallCriticallyPoor \<or> message a = OverallBelowNormal)"

subsection \<open>Example documents\<close>

definition emptyRated :: rated where
  "emptyRated = \<lparr>rating = None, description = []\<rparr>"

definition reviewFiveOne :: water_quality where
  "reviewFiveOne =
     \<lparr>source = ''user_review'', wqDeviceId = None, wqUserId = Some ''user-1'', timestamp = 0,
      sensorData = None,
      reviewData = Some \<lparr>overallRating = Some 5,
                         taste = \<lparr>rating = Some 1, description = []\<rparr>,
                         clarity = emptyRated, odor = emptyRated,
                         healthEffects = [], additionalComments = []\<rparr>,
      qualityScore = Undefined, assessmentStatus = None\<rparr>"


definition reading :: "rat \<Rightarrow> string \<Rightarrow> sensor_reading" where
  "reading v u = \<lparr>svalue = Num v, unit = u, sstatus = Some ''normal''\<rparr>"

definition sensorDoc :: "(string \<times> sensor_reading) list \<Rightarrow> water_quality" where
  "sensorDoc sd =
     \<lparr>source = ''esp32'', wqDeviceId = Some ''dev-1'', wqUserId = None, timestamp = 0,
      sensorData = Some sd, reviewData = None, qualityScore = Undefined,
      assessmentStatus = None\<rparr>"


text \<open>A reading with three of the four weighted parameters (sub-scores 60, 100, 100); a
  reading that violates a critical bound of each of two parameters; a document as the seed
  script writes it, with a score and a status supplied; a turbid reading scored 30.\<close>

definition threeSensors :: "(string \<times> sensor_reading) list" where
  "threeSensors =
     [(''turbidity'', reading 15 ''NTU''), (''tds'', reading 200 ''ppm''),
      (''temperature'', reading 20 ''C'')]"

definition twoViolations :: "(string \<times> sensor_reading) list" where
  "twoViolations = [(''turbidity'', reading 25 ''NTU''), (''tds'', reading 20 ''ppm'')]"

definition seededDoc :: water_quality where
  "seededDoc =
     (sensorDoc [(''turbidity'', reading (21 / 10) ''NTU''), (''tds'', reading 150 ''ppm''),
                 (''temperature'', reading (45 / 2) ''C''),
                 (''dissolvedOxygen'', reading (17 / 2) ''mg/L'')])
       \<lparr>qualityScore := Num 85, assessmentStatus := Some Excellent\<rparr>"


text \<open>Requests, environments and databases: the ideal reading of the end-to-end scenarios,
  a device in maintenance, a device that is offline, a poor review.\<close>

definition inputOf :: "rat \<Rightarrow> sensor_input option" where
  "inputOf v = Some \<lparr>inValue = Some v, inUnit = None\<rparr>"

definition idealRequest :: data_request where
  "idealRequest =
     \<lparr>reqDeviceId = ''dev-1'', reqTimestamp = None,
      sensors = [(''turbidity'', inputOf (21 / 10)), (''tds'', inputOf 150),
                 (''temperature'', inputOf (45 / 2)), (''dissolvedOxygen'', inputOf (17 / 2))],
      reqBatteryLevel = None, reqSignalStrength = None, reqDeviceTemperature = None\<rparr>"

definition calmEnv :: env where
  "calmEnv = \<lparr>envNow = 1000000, wqSaveError = None, deviceSaveError = None\<rparr>"


definition maintenanceDevice :: device where
  "maintenanceDevice = (newDevice ''dev-1'' 0)\<lparr>status := Maintenance\<rparr>"

definition maintenanceDb :: db where
  "maintenanceDb = \<lparr>devices = [maintenanceDevice], readings = []\<rparr>"

definition offlineDevice :: device where
  "offlineDevice = (newDevice ''dev-1'' 0)\<lparr>status := Offline\<rparr>"

definition offlineDb :: db where
  "offlineDb = \<lparr>devices = [offlineDevice], readings = []\<rparr>"




text \<open>Save outcomes and devices for the status job: a save that fails for one device id,
  saves that never fail, two devices last seen at time 0 and one in maintenance.\<close>

definition failFor :: "string \<Rightarrow> string \<Rightarrow> string \<Rightarrow> string option" where
  "failFor did m x = (if x = did then Some m else None)"

definition noFailure :: "string \<Rightarrow> string option" where
  "noFailure x = None"

definition staleA :: device where
  "staleA = newDevice ''A'' 0"

definition staleB :: device where
  "staleB = newDevice ''B'' 0"

definition restingC :: device where
  "restingC = (newDevice ''C'' 0)\<lparr>status := Maintenance\<rparr>"

section \<open>Properties of the scoring\<close>

lemma foldl_sensorStep:
  "foldl (sensorStep sd) (s, t) ws =
     (s + sum_list (map (\<lambda>(w, x). x * w)
            (List.map_filter (\<lambda>(param, weight).
               case sensorValue sd param of None \<Rightarrow> None
               | Some v \<Rightarrow> Some (weight, paramScore param v)) ws)),
      t + sum_list (map fst
            (List.map_filter (\<lambda>(param, weight).
               case sensorValue sd param of None \<Rightarrow> None
               | Some v \<Rightarrow> Some (weight, paramScore param v)) ws)))"
proof (induction ws arbitrary: s t)
  case Nil
  then show ?case by (simp add: List.map_filter_simps)
next
  case (Cons pw ws)
  obtain p w where pw: "pw = (p, w)" by (cases pw)
  show ?case
    by (simp add: pw Cons.IH List.map_filter_simps sensorValue_def
        split: option.splits jsnumber.splits)
qed


lemma sensor_totals:
  "source d = ''esp32'' \<Longrightarrow> sensorData d = Some sd \<Longrightarrow>
   scoreTotals d = (sum_list (map (\<lambda>(w, x). x * w) (presentSubScores sd)), totalWeightOf (presentSubScores sd))"
  by (simp add: scoreTotals_def foldl_sensorStep presentSubScores_def totalWeightOf_def)


lemma weights_bounds:
  assumes "\<forall>(w, x) \<in> set P. 0 < w \<and> lo \<le> x \<and> x \<le> hi"
  shows "lo * totalWeightOf P \<le> sum_list (map (\<lambda>(w, x). x * w) P)
       \<and> sum_list (map (\<lambda>(w, x). x * w) P) \<le> hi * totalWeightOf P
       \<and> (P \<noteq> [] \<longrightarrow> 0 < totalWeightOf P)"
  using assms
proof (induction P)
  case Nil
  then show ?case by (simp add: totalWeightOf_def)
next
  case (Cons a P)
  obtain w x where a: "a = (w, x)" by (cases a)
  from Cons.prems a have w: "0 < w" "lo \<le> x" "x \<le> hi" by auto
  from Cons.prems have rest: "\<forall>(w, x) \<in> set P. 0 < w \<and> lo \<le> x \<and> x \<le> hi" by auto
  note IH = Cons.IH [OF rest]
  have 1: "lo * w \<le> x * w" using w by (simp add: mult_right_mono)
  have 2: "x * w \<le> hi * w" using w by (simp add: mult_right_mono)
  have 3: "0 \<le> totalWeightOf P" using rest
    by (induction P) (auto simp: totalWeightOf_def intro: add_nonneg_nonneg less_imp_le)
  have e1: "lo * totalWeightOf (a # P) = lo * w + lo * totalWeightOf P"
    by (simp add: a totalWeightOf_def distrib_left)
  have e2: "hi * totalWeightOf (a # P) = hi * w + hi * totalWeightOf P"
    by (simp add: a totalWeightOf_def distrib_left)
  have e3: "sum_list (map (\<lambda>(w, x). x * w) (a # P)) = x * w + sum_list (map (\<lambda>(w, x). x * w) P)"
    by (simp add: a)
  have e4: "totalWeightOf (a # P) = w + totalWeightOf P"
    by (simp add: a totalWeightOf_def)
  have c1: "lo * totalWeightOf (a # P) \<le> sum_list (map (\<lambda>(w, x). x * w) (a # P))"
    using IH 1 unfolding e1 e3 by linarith
  have c2: "sum_list (map (\<lambda>(w, x). x * w) (a # P)) \<le> hi * totalWeightOf (a # P)"
    using IH 2 unfolding e2 e3 by linarith
  have c3: "0 < totalWeightOf (a # P)"
    using 3 w unfolding e4 by linarith
  show ?case using c1 c2 c3 by blast
qed

lemma totalWeight_pos:
  "\<forall>(w, x) \<in> set P. 0 < w \<Longrightarrow> P \<noteq> [] \<Longrightarrow> 0 < totalWeightOf P"
proof -
  have "\<forall>(w, x) \<in> set P. 0 < w \<Longrightarrow> 0 \<le> totalWeightOf P \<and> (P \<noteq> [] \<longrightarrow> 0 < totalWeightOf P)"
    by (induction P) (auto simp: totalWeightOf_def intro: add_pos_nonneg)
  then show "\<forall>(w, x) \<in> set P. 0 < w \<Longrightarrow> P \<noteq> [] \<Longrightarrow> 0 < totalWeightOf P" by blast
qed

lemma weightedAverage_eq:
  "weightedAverage P = sum_list (map (\<lambda>(w, x). x * w) P) / totalWeightOf P"
proof -
  have "sum_list (map (\<lambda>(w, s). (w / c) * s) P) = sum_list (map (\<lambda>(w, x). x * w) P) / c" for c :: rat
    by (induction P) (auto simp: add_divide_distrib)
  then show ?thesis by (simp add: weightedAverage_def)
qed

lemma renormalised_sum:
  "totalWeightOf P \<noteq> 0 \<Longrightarrow> sum_list (map (\<lambda>(w, s). w / totalWeightOf P) P) = 1"
proof -
  have "sum_list (map (\<lambda>(w, s). w / c) P) = sum_list (map fst P) / c" for c :: rat
    by (induction P) (auto simp: add_divide_distrib)
  then show "totalWeightOf P \<noteq> 0 \<Longrightarrow> ?thesis" by (simp add: totalWeightOf_def)
qed

lemma math_round_bounds:
  "of_int lo \<le> x \<Longrightarrow> x \<le> of_int hi \<Longrightarrow> lo \<le> math_round x \<and> math_round x \<le> hi"
  unfolding math_round_def by (simp add: le_floor_iff floor_le_iff)

lemma paramScore_int: "\<exists>k. paramScore p v = of_int k \<and> 30 \<le> k \<and> k \<le> 100"
proof -
  have "paramScore p v \<in> {100, 80, 60, 40, 30}"
    by (simp add: paramScore_def)
  then consider "paramScore p v = of_int 100" | "paramScore p v = of_int 80" | "paramScore p v = of_int 60"
    | "paramScore p v = of_int 40" | "paramScore p v = of_int 30" by auto
  then show ?thesis by cases (rule exI, erule conjI, simp)+
qed

lemma presentSubScores_elem:
  "(w, s) \<in> set (presentSubScores sd) \<Longrightarrow> 0 < w \<and> (\<exists>p v. s = paramScore p v)"
  by (auto simp: presentSubScores_def sensorWeights_def List.map_filter_simps split: option.splits)

lemma avg_bounds:
  assumes "\<forall>(w, x) \<in> set P. 0 < w \<and> lo \<le> x \<and> x \<le> hi" and "P \<noteq> []"
  shows "lo \<le> weightedAverage P \<and> weightedAverage P \<le> hi"
proof -
  from weights_bounds [OF assms(1)] assms(2)
  have b: "lo * totalWeightOf P \<le> sum_list (map (\<lambda>(w, x). x * w) P)"
    "sum_list (map (\<lambda>(w, x). x * w) P) \<le> hi * totalWeightOf P" "0 < totalWeightOf P"
    by blast+
  show ?thesis
    using b by (simp add: weightedAverage_eq pos_le_divide_eq pos_divide_le_eq)
qed

lemma calc_sensor:
  assumes "source d = ''esp32''" and "sensorData d = Some sd"
  shows "calculateQualityScore d =
     (if presentSubScores sd = [] then 50 else math_round (weightedAverage (presentSubScores sd)))"
proof (cases "presentSubScores sd = []")
  case True
  then show ?thesis
    by (simp add: calculateQualityScore_def sensor_totals [OF assms] totalWeightOf_def)
next
  case False
  have pos: "0 < totalWeightOf (presentSubScores sd)"
    using presentSubScores_elem False by (intro totalWeight_pos) auto
  show ?thesis using False pos
    by (simp add: calculateQualityScore_def sensor_totals [OF assms] weightedAverage_eq)
qed

lemma presentSubScores_table:
  "presentSubScores sd =
     (case sensorValue sd ''turbidity'' of
        None \<Rightarrow> [] | Some v \<Rightarrow> [(45 / 100, paramScore ''turbidity'' v)]) @
     (case sensorValue sd ''tds'' of
        None \<Rightarrow> [] | Some v \<Rightarrow> [(20 / 100, paramScore ''tds'' v)]) @
     (case sensorValue sd ''temperature'' of
        None \<Rightarrow> [] | Some v \<Rightarrow> [(15 / 100, paramScore ''temperature'' v)]) @
     (case sensorValue sd ''dissolvedOxygen'' of
        None \<Rightarrow> [] | Some v \<Rightarrow> [(20 / 100, paramScore ''dissolvedOxygen'' v)])"
  by (simp add: presentSubScores_def sensorWeights_def List.map_filter_simps
      split: option.splits)

text \<open>
  Claim C7. For a sensor reading, the score is the average of the sub-scores of the
  parameters present, weighted turbidity 0.45, tds 0.20, temperature 0.15 and
  dissolvedOxygen 0.20, with the weights divided by their total, so that they sum to 1,
  and rounded to an integer by \<^verbatim>\<open>Math.round\<close>. The average and the score lie between the
  least and the greatest sub-score present. With none of the four parameters present the
  score is 50.
\<close>

theorem sensor_score_weighted_average:
  assumes "source d = ''esp32''" and "sensorData d = Some sd"
    and "P =
     (case sensorValue sd ''turbidity'' of
        None \<Rightarrow> [] | Some v \<Rightarrow> [(45 / 100, paramScore ''turbidity'' v)]) @
     (case sensorValue sd ''tds'' of
        None \<Rightarrow> [] | Some v \<Rightarrow> [(20 / 100, paramScore ''tds'' v)]) @
     (case sensorValue sd ''temperature'' of
        None \<Rightarrow> [] | Some v \<Rightarrow> [(15 / 100, paramScore ''temperature'' v)]) @
     (case sensorValue sd ''dissolvedOxygen'' of
        None \<Rightarrow> [] | Some v \<Rightarrow> [(20 / 100, paramScore ''dissolvedOxygen'' v)])"
  shows "(P = [] \<longrightarrow> calculateQualityScore d = 50) \<and>
         (P \<noteq> [] \<longrightarrow>
            sum_list (map (\<lambda>(w, s). w / sum_list (map fst P)) P) = 1 \<and>
            calculateQualityScore d =
              math_round (sum_list (map (\<lambda>(w, s). (w / sum_list (map fst P)) * s) P)) \<and>
            Min (snd ` set P) \<le> sum_list (map (\<lambda>(w, s). (w / sum_list (map fst P)) * s) P) \<and>
            sum_list (map (\<lambda>(w, s). (w / sum_list (map fst P)) * s) P) \<le> Max (snd ` set P) \<and>
            Min (snd ` set P) \<le> of_int (calculateQualityScore d) \<and>
            of_int (calculateQualityScore d) \<le> Max (snd ` set P))"
proof -
  have P: "P = presentSubScores sd"
    unfolding assms(3) by (rule presentSubScores_table [symmetric])
  have wa: "sum_list (map (\<lambda>(w, s). (w / sum_list (map fst P)) * s) P) = weightedAverage P"
    by (simp add: weightedAverage_def totalWeightOf_def)
  show ?thesis
  proof (cases "P = []")
    case True
    then show ?thesis using calc_sensor [OF assms(1,2)] by (simp add: P)
  next
    case False
    let ?lo = "Min (snd ` set P)" and ?hi = "Max (snd ` set P)"
    have fin: "finite (snd ` set P)" "snd ` set P \<noteq> {}" using False by auto
    have rng: "\<forall>(w, x) \<in> set P. 0 < w \<and> ?lo \<le> x \<and> x \<le> ?hi"
    proof (clarify)
      fix w x assume m: "(w, x) \<in> set P"
      then have "x \<in> snd ` set P" by force
      then have "?lo \<le> x" "x \<le> ?hi" using fin by auto
      then show "0 < w \<and> ?lo \<le> x \<and> x \<le> ?hi"
        using presentSubScores_elem [of w x sd] m by (simp add: P)
    qed
    have W: "0 < totalWeightOf P" using weights_bounds [OF rng] False by blast
    have avg: "?lo \<le> weightedAverage P" "weightedAverage P \<le> ?hi"
      using avg_bounds [OF rng False] by blast+
    have "?lo \<in> snd ` set P" using fin by (rule Min_in)
    then obtain wl where "(wl, ?lo) \<in> set (presentSubScores sd)" unfolding P by force
    then obtain kl where kl: "?lo = of_int kl"
      using presentSubScores_elem paramScore_int by metis
    have "?hi \<in> snd ` set P" using fin by (rule Max_in)
    then obtain wh where "(wh, ?hi) \<in> set (presentSubScores sd)" unfolding P by force
    then obtain kh where kh: "?hi = of_int kh"
      using presentSubScores_elem paramScore_int by metis
    have r: "kl \<le> math_round (weightedAverage P)" "math_round (weightedAverage P) \<le> kh"
      using math_round_bounds [of kl "weightedAverage P" kh] avg kl kh by auto
    have c: "calculateQualityScore d = math_round (weightedAverage P)"
      using False calc_sensor [OF assms(1,2)] by (simp add: P)
    have n: "sum_list (map (\<lambda>(w, s). w / sum_list (map fst P)) P) = 1"
      using W renormalised_sum [of P] by (simp add: totalWeightOf_def)
    show ?thesis unfolding wa using False avg r c n by (simp add: kl kh)
  qed
qed

lemma threeSensors_values:
  "sensorValue threeSensors ''turbidity'' = Some 15"
  "sensorValue threeSensors ''tds'' = Some 200"
  "sensorValue threeSensors ''temperature'' = Some 20"
  "sensorValue threeSensors ''dissolvedOxygen'' = None"
  by (simp_all add: sensorValue_def threeSensors_def reading_def)

theorem sensor_score_weighted_average_witness:
  "source (sensorDoc threeSensors) = ''esp32'' \<and>
   sensorData (sensorDoc threeSensors) = Some threeSensors \<and>
   sum_list (map (\<lambda>(w, s). (w / (45 / 100 + 20 / 100 + 15 / 100)) * s)
     [(45 / 100, 60), (20 / 100, 100), (15 / 100, 100 :: rat)]) = 155 / 2 \<and>
   calculateQualityScore (sensorDoc threeSensors) = 78"
proof -
  have s: "source (sensorDoc threeSensors) = ''esp32''"
    "sensorData (sensorDoc threeSensors) = Some threeSensors"
    by (simp_all add: sensorDoc_def)
  have P: "[(45 / 100, 60), (20 / 100, 100), (15 / 100, 100 :: rat)] =
     (case sensorValue threeSensors ''turbidity'' of
        None \<Rightarrow> [] | Some v \<Rightarrow> [(45 / 100, paramScore ''turbidity'' v)]) @
     (case sensorValue threeSensors ''tds'' of
        None \<Rightarrow> [] | Some v \<Rightarrow> [(20 / 100, paramScore ''tds'' v)]) @
     (case sensorValue threeSensors ''temperature'' of
        None \<Rightarrow> [] | Some v \<Rightarrow> [(15 / 100, paramScore ''temperature'' v)]) @
     (case sensorValue threeSensors ''dissolvedOxygen'' of
        None \<Rightarrow> [] | Some v \<Rightarrow> [(20 / 100, paramScore ''dissolvedOxygen'' v)])"
    by (simp add: threeSensors_values paramScore_def)
  have a: "sum_list (map (\<lambda>(w, s). (w / (45 / 100 + 20 / 100 + 15 / 100)) * s)
     [(45 / 100, 60), (20 / 100, 100), (15 / 100, 100 :: rat)]) = 155 / 2"
    by simp
  show ?thesis
    using sensor_score_weighted_average [OF s P] s a
    by (simp add: math_round_def floor_eq_iff)
qed

text \<open>
  Claim C1. The claim gives the overall rating the weight 0.40 whenever it is present. The
  scoring method reads \<^verbatim>\<open>this.reviewData[param].rating\<close> for every key of the weight table;
  \<^verbatim>\<open>overallRating\<close> is a Number, which has no \<^verbatim>\<open>rating\<close> property, so the overall
  rating never takes part. For a review with overall rating 5 and taste rating 1 the
  method returns 20, where the weights of the claim give 73.
\<close>

theorem review_overall_rating_ignored:
  "calculateQualityScore reviewFiveOne = 20 \<and>
   spec_reviewScore (the (reviewData reviewFiveOne)) = 73"
  by (simp add: calculateQualityScore_def scoreTotals_def reviewFiveOne_def reviewWeights_def
      reviewField_def emptyRated_def math_round_def spec_reviewScore_def spec_presentRatings_def
      List.map_filter_simps weightedAverage_def totalWeightOf_def floor_eq_iff)














section \<open>Properties of the ingestion route\<close>

lemma findOne_id: "findOne did ds = Some d \<Longrightarrow> deviceId d = did"
  by (auto simp: findOne_def find_Some_iff)

lemma fresh_reading_rejected:
  "\<exists>errs. wq_save None modified (buildReading e req sd) = Inl (ValidationError errs) \<and>
          ''qualityScore'' \<in> set errs \<and> ''assessment.status'' \<in> set errs"
  by (simp add: wq_save_def wq_validate_def buildReading_def)

lemma reading_never_saved: "wq_save rejection modified (buildReading e req sd) \<noteq> Inr wq"
proof (cases rejection)
  case None
  then show ?thesis using fresh_reading_rejected [of modified e req sd] by auto
next
  case (Some m)
  then show ?thesis by (simp add: wq_save_def)
qed

lemma post_data_writes_nothing:
  "fst (snd (post_data e req st)) = st \<and> snd (snd (post_data e req st)) = [] \<and>
   fst (post_data e req st) \<noteq> Success q al"
proof -
  define sd where "sd = processSensors (touchDevice e req (resolveDevice e req st)) (sensors req)"
  obtain err where "wq_save (wqSaveError e) True (buildReading e req sd) = Inl err"
    using reading_never_saved [of "wqSaveError e" True e req sd]
    by (cases "wq_save (wqSaveError e) True (buildReading e req sd)") auto
  then have "post_data e req st =
      (if sd = [] then (BadRequest ''No valid sensor data provided'', st, [])
       else (ServerError err, st, []))"
    by (simp add: post_data_def Let_def sd_def)
  then show ?thesis by simp
qed

lemma ideal_sensorData:
  "processSensors (touchDevice e idealRequest d) (sensors idealRequest) =
     [(''turbidity'', \<lparr>svalue = Num (21 / 10), unit = ''NTU'',
          sstatus = Some (determineSensorStatus ''turbidity'' (Num (21 / 10))
                      (map_of (deviceThresholds d) ''turbidity''))\<rparr>),
      (''tds'', \<lparr>svalue = Num 150, unit = ''ppm'',
          sstatus = Some (determineSensorStatus ''tds'' (Num 150)
                      (map_of (deviceThresholds d) ''tds''))\<rparr>),
      (''temperature'', \<lparr>svalue = Num (45 / 2), unit = [CHR 0xC2, CHR 0xB0, CHR ''C''],
          sstatus = Some (determineSensorStatus ''temperature'' (Num (45 / 2))
                      (map_of (deviceThresholds d) ''temperature''))\<rparr>),
      (''dissolvedOxygen'', \<lparr>svalue = Num (17 / 2), unit = ''mg/L'',
          sstatus = Some (determineSensorStatus ''dissolvedOxygen'' (Num (17 / 2))
                      (map_of (deviceThresholds d) ''dissolvedOxygen''))\<rparr>)]"
  by (simp add: processSensors_def idealRequest_def inputOf_def List.map_filter_simps
      getDefaultUnit_def touchDevice_def Let_def)

lemma ideal_statuses:
  assumes "deviceThresholds d = defaultThresholds"
  shows "map (\<lambda>x. sstatus (snd x)) (processSensors (touchDevice e idealRequest d) (sensors idealRequest)) =
     [Some ''normal'', Some ''normal'', Some ''normal'', Some ''normal'']"
  by (simp add: ideal_sensorData assms defaultThresholds_def determineSensorStatus_def
      belowBound_def aboveBound_def js_lt_def)

text \<open>
  Claim C2. An offline device sends a well-formed reading with four valid sensor values and
  nothing fails from outside. The route assigns \<^verbatim>\<open>'online'\<close> to the device it has loaded and
  goes on to save the reading, but the record it builds has neither \<^verbatim>\<open>qualityScore\<close> nor
  \<^verbatim>\<open>assessment.status\<close>, both required and filled only by the \<^verbatim>\<open>pre('save')\<close> middleware,
  which runs after the validation: the save rejects, the route answers 500 and the device
  is never written. It is offline afterwards, with its old \<^verbatim>\<open>lastSeen\<close>, where the claim
  has it online. The assignment of \<^verbatim>\<open>'online'\<close> has no guard: it is made to a device in
  maintenance as well, and that device keeps its stored status for the same reason only,
  that nothing is written.
\<close>

theorem online_transition_never_stored:
  "post_data calmEnv idealRequest offlineDb =
     (ServerError (ValidationError [''qualityScore'', ''assessment.status'']), offlineDb, []) \<and>
   map status (devices offlineDb) = [Offline] \<and> map lastSeen (devices offlineDb) = [0] \<and>
   envNow calmEnv = 1000000 \<and>
   status (touchDevice calmEnv idealRequest offlineDevice) = Online \<and>
   lastSeen (touchDevice calmEnv idealRequest offlineDevice) = 1000000 \<and>
   status (touchDevice calmEnv idealRequest maintenanceDevice) = Online \<and>
   fst (snd (post_data calmEnv idealRequest maintenanceDb)) = maintenanceDb \<and>
   map status (devices maintenanceDb) = [Maintenance]"
proof -
  let ?d = "resolveDevice calmEnv idealRequest offlineDb"
  let ?sd = "processSensors (touchDevice calmEnv idealRequest ?d) (sensors idealRequest)"
  have r: "?d = offlineDevice"
    by (simp add: resolveDevice_def findOne_def offlineDb_def offlineDevice_def
        newDevice_def idealRequest_def)
  have th: "deviceThresholds offlineDevice = defaultThresholds"
    by (simp add: offlineDevice_def newDevice_def)
  have ne: "?sd \<noteq> []" by (simp add: ideal_sensorData)
  have st: "list_all sensorStatusValid ?sd"
    using ideal_statuses [OF th, of calmEnv]
    by (simp add: r ideal_sensorData sensorStatusValid_def sensorStatusEnum_def)
  have v: "wq_validate (buildReading calmEnv idealRequest ?sd) =
      [''qualityScore'', ''assessment.status'']"
    using st by (simp add: wq_validate_def buildReading_def sourceEnum_def idealRequest_def)
  have "post_data calmEnv idealRequest offlineDb =
      (ServerError (ValidationError [''qualityScore'', ''assessment.status'']), offlineDb, [])"
    using ne v by (simp add: post_data_def Let_def wq_save_def calmEnv_def)
  moreover have "status (touchDevice calmEnv idealRequest offlineDevice) = Online"
    "lastSeen (touchDevice calmEnv idealRequest offlineDevice) = 1000000"
    "status (touchDevice calmEnv idealRequest maintenanceDevice) = Online"
    by (simp_all add: touchDevice_def Let_def calmEnv_def)
  moreover have "fst (snd (post_data calmEnv idealRequest maintenanceDb)) = maintenanceDb"
    using post_data_writes_nothing [of calmEnv idealRequest maintenanceDb] by simp
  moreover have "map status (devices maintenanceDb) = [Maintenance]"
    by (simp add: maintenanceDb_def maintenanceDevice_def)
  ultimately show ?thesis
    by (simp add: offlineDb_def offlineDevice_def newDevice_def calmEnv_def)
qed




text \<open>
  Claim C5 as stated fails: the statistics update for a successful reading, on a new
  device and for a reading scored 100, gives one successful reading and an average of 0.
\<close>

theorem average_counterexample:
  "calculateQualityScore seededDoc = 100 \<and>
   successfulReadings (statistics (recordReading 1000000 True (newDevice ''dev-1'' 0))) = 1 \<and>
   averageQualityScore (statistics (recordReading 1000000 True (newDevice ''dev-1'' 0))) = 0"
proof -
  have "calculateQualityScore seededDoc = 100"
    by (simp add: calculateQualityScore_def scoreTotals_def seededDoc_def sensorDoc_def
        reading_def sensorWeights_def paramScore_def math_round_def floor_eq_iff)
  then show ?thesis
    by (simp add: recordReading_def Let_def newDevice_def defaultStatistics_def)
qed

text \<open>
  Claim C5, as amended. \<^verbatim>\<open>recordReading\<close>, the only update of the statistics in the code,
  adds one to \<^verbatim>\<open>totalReadings\<close> and to \<^verbatim>\<open>successfulReadings\<close> (to \<^verbatim>\<open>failedReadings\<close> when
  it is called with \<^verbatim>\<open>false\<close>) and sets \<^verbatim>\<open>lastReadingTime\<close>; it takes no score, and
  \<^verbatim>\<open>averageQualityScore\<close> is never recomputed: \<^verbatim>\<open>recordReading\<close> and the ingestion route
  leave it as stored.
\<close>

theorem statistics_update:
  "statistics (recordReading t True d) =
     (statistics d)\<lparr>totalReadings := totalReadings (statistics d) + 1,
                    successfulReadings := successfulReadings (statistics d) + 1,
                    lastReadingTime := Some t\<rparr> \<and>
   statistics (recordReading t False d) =
     (statistics d)\<lparr>totalReadings := totalReadings (statistics d) + 1,
                    failedReadings := failedReadings (statistics d) + 1,
                    lastReadingTime := Some t\<rparr> \<and>
   averageQualityScore (statistics (recordReading t b d)) = averageQualityScore (statistics d) \<and>
   map averageQualityScore (map statistics (devices (fst (snd (post_data e req st))))) =
     map averageQualityScore (map statistics (devices st))"
  using post_data_writes_nothing [of e req st]
  by (simp add: recordReading_def Let_def)

theorem statistics_update_witness:
  "statistics (recordReading 1000000 True (newDevice ''dev-1'' 0)) =
     \<lparr>totalReadings = 1, successfulReadings = 1, failedReadings = 0,
      lastReadingTime = Some 1000000, averageQualityScore = 0\<rparr> \<and>
   statistics (recordReading 1000000 False (newDevice ''dev-1'' 0)) =
     \<lparr>totalReadings = 1, successfulReadings = 0, failedReadings = 1,
      lastReadingTime = Some 1000000, averageQualityScore = 0\<rparr>"
  using statistics_update [of 1000000 "newDevice ''dev-1'' 0" True calmEnv idealRequest offlineDb]
  by (simp add: newDevice_def defaultStatistics_def)

section \<open>Properties of the alert check\<close>

lemma thresholdAlerts_sensor: "a \<in> set (thresholdAlerts k r th) \<Longrightarrow> sensor a = k \<and> \<not> isOverall a"
  by (auto simp: thresholdAlerts_def isOverall_def split: option.splits if_splits)

lemma sensorAlerts_member:
  "a \<in> set (sensorAlerts sd dev) \<Longrightarrow> sensor a \<in> fst ` set sd \<and> \<not> isOverall a"
  by (force simp: sensorAlerts_def dest: thresholdAlerts_sensor)

lemma sensorAlerts_Cons:
  "sensorAlerts ((k, r) # sd) dev =
     thresholdAlerts k r (map_of (deviceThresholds dev) k) @ sensorAlerts sd dev"
  by (simp add: sensorAlerts_def)

lemma filter_own_key:
  "filter (\<lambda>a. sensor a = k \<and> \<not> isOverall a) (thresholdAlerts k r th) = thresholdAlerts k r th"
  by (auto simp: filter_id_conv dest: thresholdAlerts_sensor)

lemma filter_other_key:
  "k' \<noteq> k \<Longrightarrow> filter (\<lambda>a. sensor a = k \<and> \<not> isOverall a) (thresholdAlerts k' r th) = []"
  by (auto simp: filter_empty_conv dest: thresholdAlerts_sensor)

lemma filter_absent_key:
  "k \<notin> fst ` set sd \<Longrightarrow> filter (\<lambda>a. sensor a = k \<and> \<not> isOverall a) (sensorAlerts sd dev) = []"
  by (auto simp: filter_empty_conv dest: sensorAlerts_member)

lemma filter_overall_part:
  "filter (\<lambda>a. sensor a = k \<and> \<not> isOverall a) (overallAlerts q) = []"
  by (simp add: overallAlerts_def isOverall_def)

lemma sensorAlerts_of_key:
  "distinct (map fst sd) \<Longrightarrow> map_of sd k = Some r \<Longrightarrow>
   filter (\<lambda>a. sensor a = k \<and> \<not> isOverall a) (sensorAlerts sd dev) =
     thresholdAlerts k r (map_of (deviceThresholds dev) k)"
proof (induction sd)
  case Nil
  then show ?case by simp
next
  case (Cons p sd)
  obtain k' r' where p: "p = (k', r')" by (cases p)
  from Cons.prems p have nk: "k' \<notin> fst ` set sd" and d: "distinct (map fst sd)" by auto
  show ?case
  proof (cases "k' = k")
    case True
    with Cons.prems(2) p have "r' = r" by simp
    then show ?thesis
      using nk True by (simp add: p sensorAlerts_Cons filter_absent_key filter_own_key)
  next
    case False
    with Cons.prems(2) p have "map_of sd k = Some r" by simp
    then show ?thesis
      using Cons.IH [OF d] False by (simp add: p sensorAlerts_Cons filter_other_key)
  qed
qed

text \<open>
  Claim C8. In the list \<^verbatim>\<open>checkForAlerts\<close> returns for a reading (keys distinct), the alerts
  of the threshold check for one sensor key are at most one, and exactly the first rule
  that matches: a value below \<^verbatim>\<open>criticalMin\<close> gives the one critical-low alert; otherwise a
  value above \<^verbatim>\<open>criticalMax\<close> the one critical-high alert; only when neither critical
  bound is violated a value below \<^verbatim>\<open>min\<close> gives the one warning, otherwise a value
  above \<^verbatim>\<open>max\<close> the one warning; otherwise, and without thresholds for the key, nothing.
\<close>

theorem at_most_one_alert_per_parameter:
  assumes "sensorData wq = Some sd" and "distinct (map fst sd)" and "map_of sd k = Some r"
  shows "\<exists>alerts. checkForAlerts wq dev = Inr alerts \<and>
     length (filter (\<lambda>a. sensor a = k \<and> \<not> isOverall a) alerts) \<le> 1 \<and>
     filter (\<lambda>a. sensor a = k \<and> \<not> isOverall a) alerts =
       (case map_of (deviceThresholds dev) k of
          None \<Rightarrow> []
        | Some t \<Rightarrow>
            if criticalMin t \<noteq> Undefined \<and> js_lt (svalue r) (criticalMin t) then
              [\<lparr>atype = ''critical'', sensor = k, message = CriticallyLow,
                avalue = svalue r, threshold = criticalMin t\<rparr>]
            else if criticalMax t \<noteq> Undefined \<and> js_lt (criticalMax t) (svalue r) then
              [\<lparr>atype = ''critical'', sensor = k, message = CriticallyHigh,
                avalue = svalue r, threshold = criticalMax t\<rparr>]
            else if tmin t \<noteq> Undefined \<and> js_lt (svalue r) (tmin t) then
              [\<lparr>atype = ''warning'', sensor = k, message = BelowNormal,
                avalue = svalue r, threshold = tmin t\<rparr>]
            else if tmax t \<noteq> Undefined \<and> js_lt (tmax t) (svalue r) then
              [\<lparr>atype = ''warning'', sensor = k, message = AboveNormal,
                avalue = svalue r, threshold = tmax t\<rparr>]
            else [])"
proof -
  let ?alerts = "sensorAlerts sd dev @ overallAlerts (qualityScore wq)"
  have c: "checkForAlerts wq dev = Inr ?alerts"
    using assms(1) by (simp add: checkForAlerts_def)
  have f: "filter (\<lambda>a. sensor a = k \<and> \<not> isOverall a) ?alerts =
      thresholdAlerts k r (map_of (deviceThresholds dev) k)"
    using sensorAlerts_of_key [OF assms(2,3)] by (simp add: filter_overall_part)
  have e: "thresholdAlerts k r (map_of (deviceThresholds dev) k) =
       (case map_of (deviceThresholds dev) k of
          None \<Rightarrow> []
        | Some t \<Rightarrow>
            if criticalMin t \<noteq> Undefined \<and> js_lt (svalue r) (criticalMin t) then
              [\<lparr>atype = ''critical'', sensor = k, message = CriticallyLow,
                avalue = svalue r, threshold = criticalMin t\<rparr>]
            else if criticalMax t \<noteq> Undefined \<and> js_lt (criticalMax t) (svalue r) then
              [\<lparr>atype = ''critical'', sensor = k, message = CriticallyHigh,
                avalue = svalue r, threshold = criticalMax t\<rparr>]
            else if tmin t \<noteq> Undefined \<and> js_lt (svalue r) (tmin t) then
              [\<lparr>atype = ''warning'', sensor = k, message = BelowNormal,
                avalue = svalue r, threshold = tmin t\<rparr>]
            else if tmax t \<noteq> Undefined \<and> js_lt (tmax t) (svalue r) then
              [\<lparr>atype = ''warning'', sensor = k, message = AboveNormal,
                avalue = svalue r, threshold = tmax t\<rparr>]
            else [])"
    by (simp add: thresholdAlerts_def belowBound_def aboveBound_def split: option.splits)
  have l: "length (thresholdAlerts k r (map_of (deviceThresholds dev) k)) \<le> 1"
    by (simp add: thresholdAlerts_def split: option.splits)
  show ?thesis
    using c f e l by (intro exI [of _ ?alerts]) (simp only: simp_thms)
qed

theorem at_most_one_alert_per_parameter_witness:
  "(\<exists>alerts. checkForAlerts (sensorDoc twoViolations) (newDevice ''dev-1'' 0) = Inr alerts \<and>
      filter (\<lambda>a. sensor a = ''turbidity'' \<and> \<not> isOverall a) alerts =
        [\<lparr>atype = ''critical'', sensor = ''turbidity'', message = CriticallyHigh,
          avalue = Num 25, threshold = Num 20\<rparr>]) \<and>
   (\<exists>alerts. checkForAlerts (sensorDoc twoViolations) (newDevice ''dev-1'' 0) = Inr alerts \<and>
      filter (\<lambda>a. sensor a = ''tds'' \<and> \<not> isOverall a) alerts =
        [\<lparr>atype = ''critical'', sensor = ''tds'', message = CriticallyLow,
          avalue = Num 20, threshold = Num 50\<rparr>])"
proof -
  have s: "sensorData (sensorDoc twoViolations) = Some twoViolations"
    by (simp add: sensorDoc_def)
  have d: "distinct (map fst twoViolations)"
    by (simp add: twoViolations_def)
  have tu: "map_of twoViolations ''turbidity'' = Some (reading 25 ''NTU'')"
    and td: "map_of twoViolations ''tds'' = Some (reading 20 ''ppm'')"
    by (simp_all add: twoViolations_def)
  have th: "map_of (deviceThresholds (newDevice ''dev-1'' 0)) ''turbidity'' =
        Some \<lparr>tmin = Undefined, tmax = Num 5, criticalMin = Undefined, criticalMax = Num 20\<rparr>"
      "map_of (deviceThresholds (newDevice ''dev-1'' 0)) ''tds'' =
        Some \<lparr>tmin = Num 150, tmax = Num 500, criticalMin = Num 50, criticalMax = Num 1000\<rparr>"
    by (simp_all add: newDevice_def defaultThresholds_def)
  have 1: "\<exists>alerts. checkForAlerts (sensorDoc twoViolations) (newDevice ''dev-1'' 0) = Inr alerts \<and>
      filter (\<lambda>a. sensor a = ''turbidity'' \<and> \<not> isOverall a) alerts =
        [\<lparr>atype = ''critical'', sensor = ''turbidity'', message = CriticallyHigh,
          avalue = Num 25, threshold = Num 20\<rparr>]"
    using at_most_one_alert_per_parameter [OF s d tu, of "newDevice ''dev-1'' 0"]
    by (auto simp: th reading_def js_lt_def)
  have 2: "\<exists>alerts. checkForAlerts (sensorDoc twoViolations) (newDevice ''dev-1'' 0) = Inr alerts \<and>
      filter (\<lambda>a. sensor a = ''tds'' \<and> \<not> isOverall a) alerts =
        [\<lparr>atype = ''critical'', sensor = ''tds'', message = CriticallyLow,
          avalue = Num 20, threshold = Num 50\<rparr>]"
    using at_most_one_alert_per_parameter [OF s d td, of "newDevice ''dev-1'' 0"]
    by (auto simp: th reading_def js_lt_def)
  show ?thesis using 1 2 by blast
qed







section \<open>Properties of the device status job\<close>

lemma loop_stops_at_failure:
  "\<forall>x \<in> set pre. isStale now x \<longrightarrow> saveError (deviceId x) = None \<Longrightarrow>
   isStale now d \<Longrightarrow> saveError (deviceId d) = Some m \<Longrightarrow>
   statusCheckLoop now saveError (pre @ d # post) =
     (Some m, map (sweepOne now) pre @ d # post, map offlineLog (filter (isStale now) pre))"
  by (induction pre) (auto simp: isStale_def sweepOne_def offlineLog_def)

lemma loop_touches_only_stale:
  "list_all2 (\<lambda>d d'. d' = d \<or> (isStale now d \<and> d' = d\<lparr>status := Offline\<rparr>))
     ds (fst (snd (statusCheckLoop now saveError ds)))"
proof (induction ds)
  case Nil
  then show ?case by simp
next
  case (Cons d ds)
  have refl: "list_all2 (\<lambda>d d'. d' = d \<or> (isStale now d \<and> d' = d\<lparr>status := Offline\<rparr>)) ds ds"
    by (simp add: list_all2_same)
  show ?case
    using Cons.IH refl
    by (auto simp: isStale_def split: option.splits prod.splits)
qed

lemma stale_examples:
  "isStale 660001 staleA" "isStale 660001 staleB" "\<not> isStale 660001 restingC"
  "deviceId staleA = ''A''" "deviceId staleB = ''B''" "deviceId restingC = ''C''"
  by (simp_all add: isStale_def staleA_def staleB_def restingC_def newDevice_def timeout_def)

text \<open>
  Claim C6 as stated fails: when the save of device A rejects, device B, later in the
  sweep, stale and with a working save, is not processed.
\<close>

theorem sweep_abort_counterexample:
  "failFor ''A'' ''disk full'' (deviceId staleB) = None \<and>
   status staleB = Online \<and> 660001 - lastSeen staleB > 10 * 60 * 1000 \<and>
   deviceStatusCheck 660001 None (failFor ''A'' ''disk full'') [staleA, staleB] =
     ([staleA, staleB],
      [Info ''Running device status check...'',
       ErrorLog ''Device status check error:'' ''disk full''])"
  by (simp add: deviceStatusCheck_def failFor_def staleA_def staleB_def newDevice_def timeout_def)

text \<open>
  Claim C6, as amended. A rejected save is logged, and it ends that run of the sweep: the
  devices before the failing one have been processed, the failing device and every device
  after it are left as they were. The job itself returns.
\<close>

theorem sweep_stops_at_failed_save:
  assumes "isStale now d" and "saveError (deviceId d) = Some m"
    and "\<forall>x \<in> set pre. isStale now x \<longrightarrow> saveError (deviceId x) = None"
  shows "deviceStatusCheck now None saveError (pre @ d # post) =
     (map (sweepOne now) pre @ d # post,
      Info ''Running device status check...'' # map offlineLog (filter (isStale now) pre) @
        [ErrorLog ''Device status check error:'' m])"
  using loop_stops_at_failure [OF assms(3,1,2), of post]
  by (simp add: deviceStatusCheck_def)

theorem sweep_stops_at_failed_save_witness:
  "isStale 660001 staleA \<and> failFor ''A'' ''disk full'' (deviceId staleA) = Some ''disk full'' \<and>
   deviceStatusCheck 660001 None (failFor ''A'' ''disk full'') ([restingC] @ staleA # [staleB]) =
     ([restingC, staleA, staleB],
      [Info ''Running device status check...'',
       ErrorLog ''Device status check error:'' ''disk full''])"
proof -
  have a: "isStale 660001 staleA" by (rule stale_examples)
  have b: "failFor ''A'' ''disk full'' (deviceId staleA) = Some ''disk full''"
    by (simp add: failFor_def stale_examples)
  have c: "\<forall>x \<in> set [restingC]. isStale 660001 x \<longrightarrow> failFor ''A'' ''disk full'' (deviceId x) = None"
    by (simp add: stale_examples)
  show ?thesis
    using sweep_stops_at_failed_save [OF a b c, of "[staleB]"] a b
    by (simp add: stale_examples sweepOne_def isStale_def [symmetric])
qed

lemma loop_transitions_prefix:
  "i < length ds \<Longrightarrow> isStale now (ds ! i) \<Longrightarrow>
   \<forall>j \<le> i. isStale now (ds ! j) \<longrightarrow> saveError (deviceId (ds ! j)) = None \<Longrightarrow>
   fst (snd (statusCheckLoop now saveError ds)) ! i = (ds ! i)\<lparr>status := Offline\<rparr>"
proof (induction ds arbitrary: i)
  case Nil
  then show ?case by simp
next
  case (Cons d ds)
  have head: "isStale now d \<longrightarrow> saveError (deviceId d) = None"
    using Cons.prems(3) [rule_format, of 0] by simp
  show ?case
  proof (cases i)
    case 0
    with Cons.prems(2) have st: "isStale now d" by simp
    with head have "saveError (deviceId d) = None" by simp
    then show ?thesis
      using st 0 by (simp add: isStale_def split: prod.splits)
  next
    case (Suc n)
    have n: "n < length ds" "isStale now (ds ! n)"
      using Cons.prems(1,2) Suc by simp_all
    have rest: "\<forall>j \<le> n. isStale now (ds ! j) \<longrightarrow> saveError (deviceId (ds ! j)) = None"
    proof (intro allI impI)
      fix j assume "j \<le> n" "isStale now (ds ! j)"
      then show "saveError (deviceId (ds ! j)) = None"
        using Cons.prems(3) [rule_format, of "Suc j"] Suc by simp
    qed
    note IH = Cons.IH [OF n rest]
    show ?thesis
      using IH head Suc by (auto simp: isStale_def split: prod.splits option.splits)
  qed
qed

text \<open>
  Claim C9 as stated fails: device B is online, was last seen more than ten minutes ago
  and its own save would work, but the save of device A, before it in the sweep, rejects,
  and B is still online after the run.
\<close>

theorem sweep_skipped_device_counterexample:
  "status staleB = Online \<and> 660001 - lastSeen staleB > 10 * 60 * 1000 \<and>
   failFor ''A'' ''disk full'' (deviceId staleB) = None \<and>
   map status (fst (deviceStatusCheck 660001 None (failFor ''A'' ''disk full'')
                      [staleA, restingC, staleB])) = [Online, Maintenance, Online]"
  by (simp add: deviceStatusCheck_def failFor_def staleA_def staleB_def restingC_def
      newDevice_def timeout_def)

text \<open>
  Claim C9, as amended. In a run of the sweep in which the query of the devices succeeds,
  every device that is online and was last seen more than ten minutes (600000 ms) ago is
  offline afterwards, provided that neither its own save nor the save of a stale device
  before it in the sweep rejects. In every run, whatever the query and the saves do, every
  device that is not online (offline, maintenance, error) or was seen within the ten
  minutes is left as it was.
\<close>

theorem sweep_transitions:
  "(\<forall>i < length store.
       status (store ! i) = Online \<and> now - lastSeen (store ! i) > 600000 \<and>
       (\<forall>j \<le> i. status (store ! j) = Online \<and> now - lastSeen (store ! j) > 600000 \<longrightarrow>
                saveError (deviceId (store ! j)) = None) \<longrightarrow>
       fst (deviceStatusCheck now None saveError store) ! i = (store ! i)\<lparr>status := Offline\<rparr>) \<and>
   length (fst (deviceStatusCheck now findError saveError store)) = length store \<and>
   (\<forall>i < length store.
       status (store ! i) \<noteq> Online \<or> now - lastSeen (store ! i) \<le> 600000 \<longrightarrow>
       fst (deviceStatusCheck now findError saveError store) ! i = store ! i)"
proof -
  have stale: "isStale now d \<longleftrightarrow> status d = Online \<and> now - lastSeen d > 600000" for d
    by (simp add: isStale_def timeout_def)
  have res: "fst (deviceStatusCheck now findError saveError store) =
      (case findError of Some m \<Rightarrow> store | None \<Rightarrow> fst (snd (statusCheckLoop now saveError store)))"
    by (simp add: deviceStatusCheck_def split: option.splits prod.splits)
  have rel: "list_all2 (\<lambda>d d'. d' = d \<or> (isStale now d \<and> d' = d\<lparr>status := Offline\<rparr>))
      store (fst (deviceStatusCheck now findError saveError store))"
    unfolding res using loop_touches_only_stale [of now store saveError]
    by (simp add: list_all2_same split: option.splits)
  have len: "length (fst (deviceStatusCheck now findError saveError store)) = length store"
    using rel by (simp add: list_all2_lengthD)
  have keep: "\<forall>i < length store.
       status (store ! i) \<noteq> Online \<or> now - lastSeen (store ! i) \<le> 600000 \<longrightarrow>
       fst (deviceStatusCheck now findError saveError store) ! i = store ! i"
  proof (intro allI impI)
    fix i assume i: "i < length store"
      and n: "status (store ! i) \<noteq> Online \<or> now - lastSeen (store ! i) \<le> 600000"
    from n have "\<not> isStale now (store ! i)" by (auto simp: stale)
    then show "fst (deviceStatusCheck now findError saveError store) ! i = store ! i"
      using list_all2_nthD [OF rel i] by simp
  qed
  have move: "\<forall>i < length store.
       status (store ! i) = Online \<and> now - lastSeen (store ! i) > 600000 \<and>
       (\<forall>j \<le> i. status (store ! j) = Online \<and> now - lastSeen (store ! j) > 600000 \<longrightarrow>
                saveError (deviceId (store ! j)) = None) \<longrightarrow>
       fst (deviceStatusCheck now None saveError store) ! i = (store ! i)\<lparr>status := Offline\<rparr>"
  proof (intro allI impI)
    fix i assume i: "i < length store"
      and h: "status (store ! i) = Online \<and> now - lastSeen (store ! i) > 600000 \<and>
       (\<forall>j \<le> i. status (store ! j) = Online \<and> now - lastSeen (store ! j) > 600000 \<longrightarrow>
                saveError (deviceId (store ! j)) = None)"
    from h have s: "isStale now (store ! i)" by (simp add: stale)
    from h have p: "\<forall>j \<le> i. isStale now (store ! j) \<longrightarrow> saveError (deviceId (store ! j)) = None"
      by (simp add: stale)
    have "fst (deviceStatusCheck now None saveError store) =
        fst (snd (statusCheckLoop now saveError store))"
      by (simp add: deviceStatusCheck_def split: prod.splits)
    then show "fst (deviceStatusCheck now None saveError store) ! i = (store ! i)\<lparr>status := Offline\<rparr>"
      using loop_transitions_prefix [OF i s p] by simp
  qed
  show ?thesis using move len keep by blast
qed

theorem sweep_transitions_witness:
  "map status (fst (deviceStatusCheck 660001 None (failFor ''B'' ''disk full'')
                      [staleA, restingC, staleB])) = [Offline, Maintenance, Online]"
proof -
  let ?store = "[staleA, restingC, staleB]"
  define res where
    "res = fst (deviceStatusCheck 660001 None (failFor ''B'' ''disk full'') ?store)"
  note t = sweep_transitions [of ?store 660001 "failFor ''B'' ''disk full''" None, folded res_def]
  have len: "length res = 3" using t by simp
  have A: "\<forall>i < length ?store.
       status (?store ! i) = Online \<and> 660001 - lastSeen (?store ! i) > 600000 \<and>
       (\<forall>j \<le> i. status (?store ! j) = Online \<and> 660001 - lastSeen (?store ! j) > 600000 \<longrightarrow>
                failFor ''B'' ''disk full'' (deviceId (?store ! j)) = None) \<longrightarrow>
       res ! i = (?store ! i)\<lparr>status := Offline\<rparr>"
    using t by blast
  have K: "\<forall>i < length ?store.
      status (?store ! i) \<noteq> Online \<or> 660001 - lastSeen (?store ! i) \<le> 600000 \<longrightarrow>
      res ! i = ?store ! i"
    using t by blast
  have s: "status staleA = Online" "660001 - lastSeen staleA > 600000"
    "failFor ''B'' ''disk full'' (deviceId staleA) = None" "status restingC \<noteq> Online"
    by (simp_all add: staleA_def restingC_def newDevice_def failFor_def)
  have 0: "res ! 0 = staleA\<lparr>status := Offline\<rparr>"
    using A [rule_format, of 0] s by simp
  have 1: "res ! 1 = restingC"
    using K [rule_format, of 1] s by simp
  have 2: "res ! 2 = staleB"
    by (simp add: res_def deviceStatusCheck_def failFor_def staleA_def staleB_def restingC_def
        newDevice_def timeout_def)
  from len obtain a b c where r: "res = [a, b, c]"
    by (auto simp: numeral_3_eq_3 length_Suc_conv)
  have "map status res = [Offline, Maintenance, Online]"
    using 0 1 2 by (simp add: r restingC_def staleB_def newDevice_def)
  then show ?thesis by (simp add: res_def)
qed

end
